theory Spec2Isabelle
  imports Complex_Main
begin

section \<open>DeGrooteFregly2016Muscle: curves and state accessors\<close>

text \<open>
  The embedding follows \<^verbatim>\<open>OpenSim/Moco/Components/DeGrooteFregly2016Muscle.h\<close>.

  Numbers. \<^verbatim>\<open>SimTK::Real\<close> and \<^verbatim>\<open>double\<close> are modelled by \<^typ>\<open>real\<close>: arithmetic is exact,
  there is no rounding, overflow or underflow, and every \<^verbatim>\<open>constexpr\<close> constant is the decimal
  written in the header. Where an evaluation of the source can leave the finite numbers
  (a division by zero, \<^verbatim>\<open>log\<close> of a number that is not positive) the function returns
  \<^typ>\<open>real option\<close>: \<open>Some r\<close> when exact arithmetic gives the finite number \<open>r\<close>, and \<open>None\<close> when
  IEEE arithmetic gives NaN or an infinity, or a value that depends on the sign of a zero
  divisor. No result about a function of the source relies on HOL's own \<open>x / 0 = 0\<close> or
  \<open>ln x = ln \<bar>x\<bar>\<close>. Rounding enters at one place only: the binary64 evaluation of a lobe
  denominator, which is defined apart from the exact functions.
\<close>

subsection \<open>SimTK helpers\<close>

definition square :: "real \<Rightarrow> real" where
  "square x = x * x"

definition cube :: "real \<Rightarrow> real" where
  "cube x = x * x * x"

text \<open>What a function declared \<^verbatim>\<open>SimTK::Real\<close> returns when it can return the constant
  \<^verbatim>\<open>SimTK::Infinity\<close>.\<close>

datatype SimTK_Real = Finite real | Infinity

subsection \<open>Curve parameters\<close>

text \<open>Parameters for the active fiber force-length curve.\<close>

definition b11 :: real where "b11 = 0.8150671134243542"
definition b21 :: real where "b21 = 1.055033428970575"
definition b31 :: real where "b31 = 0.162384573599574"
definition b41 :: real where "b41 = 0.063303448465465"
definition b12 :: real where "b12 = 0.433004984392647"
definition b22 :: real where "b22 = 0.716775413397760"
definition b32 :: real where "b32 = -0.029947116970696"
definition b42 :: real where "b42 = 0.200356847296188"
definition b13 :: real where "b13 = 0.1"
definition b23 :: real where "b23 = 1.0"
definition b33 :: real where "b33 = 0.353553390593274"
definition b43 :: real where "b43 = 0.0"

text \<open>Exponential shape factor of the passive fiber force-length curve.\<close>

definition kPE :: real where "kPE = 4.0"

text \<open>Parameters for the tendon force curve.\<close>

definition c1 :: real where "c1 = 0.200"
definition c2 :: real where "c2 = 1.0"
definition c3 :: real where "c3 = 0.200"

text \<open>Parameters for the force-velocity curve.\<close>

definition d1 :: real where "d1 = -0.3211346127989808"
definition d2 :: real where "d2 = -8.149"
definition d3 :: real where "d3 = -0.374"
definition d4 :: real where "d4 = 0.8825327733249912"

definition m_minNormFiberLength :: real where "m_minNormFiberLength = 0.2"
definition m_maxNormFiberLength :: real where "m_maxNormFiberLength = 1.8"

definition m_minNormTendonForce :: real where "m_minNormTendonForce = 0.0"
definition m_maxNormTendonForce :: real where "m_maxNormTendonForce = 5.0"

subsection \<open>The muscle object\<close>

text \<open>
  The properties and data members that the functions below read. The four name constants
  are static members that the header declares and a source file outside this development
  defines; \<open>m_kT\<close> is computed from the properties by \<^verbatim>\<open>extendFinalizeFromProperties\<close>, which
  is declared in the header only; \<open>controlIndex\<close> is the slot of this actuator in the
  model's vector of controls. They are carried as fields, so that nothing is assumed about
  their values.
\<close>

record DeGrooteFregly2016Muscle =
  max_isometric_force :: real
  optimal_fiber_length :: real
  tendon_slack_length :: real
  ignore_activation_dynamics :: bool
  ignore_tendon_compliance :: bool
  active_force_width_scale :: real
  fiber_damping :: real
  ignore_passive_fiber_force :: bool
  passive_fiber_strain_at_one_norm_force :: real
  m_kT :: real
  m_isTendonDynamicsExplicit :: bool
  controlIndex :: nat
  STATE_ACTIVATION_NAME :: string
  STATE_NORMALIZED_TENDON_FORCE_NAME :: string
  DERIVATIVE_NORMALIZED_TENDON_FORCE_NAME :: string
  RESIDUAL_NORMALIZED_TENDON_FORCE_NAME :: string

subsection \<open>The state container\<close>

text \<open>
  \<^verbatim>\<open>SimTK::State\<close>, as far as the accessors of the muscle touch it: the model's controls by
  slot, the named state variables with their derivatives, the named discrete variables, and
  the names of the cache variables that are currently valid. A name that was never
  allocated has no slot.
\<close>

record State =
  controls :: "nat \<Rightarrow> real"
  stateVariables :: "string \<rightharpoonup> real"
  stateVariableDerivatives :: "string \<rightharpoonup> real"
  discreteVariables :: "string \<rightharpoonup> real"
  validCacheVariables :: "string set"

datatype exception = Exception

text \<open>Modelled from the spec: \<^verbatim>\<open>Component::getStateVariableValue\<close> is missing from the
  sources at hand. The state container "provides get/set access to the two named state
  slots"; asking for a name that has no slot throws.\<close>

definition getStateVariableValue :: "State \<Rightarrow> string \<Rightarrow> exception + real" where
  "getStateVariableValue s name =
     (case stateVariables s name of None \<Rightarrow> Inl Exception | Some v \<Rightarrow> Inr v)"

text \<open>Modelled from the spec: \<^verbatim>\<open>Component::setStateVariableValue\<close> is missing; it is the
  "set access" to a named state slot, and throws for a name that has no slot.\<close>

definition setStateVariableValue :: "State \<Rightarrow> string \<Rightarrow> real \<Rightarrow> exception + State" where
  "setStateVariableValue s name v =
     (case stateVariables s name of
        None \<Rightarrow> Inl Exception
      | Some _ \<Rightarrow> Inr (s\<lparr>stateVariables := (stateVariables s)(name \<mapsto> v)\<rparr>))"

text \<open>Modelled from the spec: \<^verbatim>\<open>Component::getStateVariableDerivativeValue\<close> is missing; it
  reads the derivative that belongs to a named state slot.\<close>

definition getStateVariableDerivativeValue :: "State \<Rightarrow> string \<Rightarrow> exception + real" where
  "getStateVariableDerivativeValue s name =
     (case stateVariableDerivatives s name of None \<Rightarrow> Inl Exception | Some v \<Rightarrow> Inr v)"

text \<open>Modelled from the spec: \<^verbatim>\<open>Component::getDiscreteVariableValue\<close> is missing; it reads
  the "discrete (non-differentiated) slot for the guessed tendon-force derivative".\<close>

definition getDiscreteVariableValue :: "State \<Rightarrow> string \<Rightarrow> exception + real" where
  "getDiscreteVariableValue s name =
     (case discreteVariables s name of None \<Rightarrow> Inl Exception | Some v \<Rightarrow> Inr v)"

text \<open>Modelled from the spec: \<^verbatim>\<open>Component::markCacheVariableInvalid\<close> is missing; the info
  bundles "may be cached by the host", and marking one invalid takes its name out of the
  valid ones.\<close>

definition markCacheVariableInvalid :: "State \<Rightarrow> string \<Rightarrow> State" where
  "markCacheVariableInvalid s name = s\<lparr>validCacheVariables := validCacheVariables s - {name}\<rparr>"

text \<open>Modelled from the spec: \<^verbatim>\<open>ScalarActuator::getControl\<close> is missing; the control source
  "supplies excitation values", and the actuator reads its own slot of the model's
  controls.\<close>

definition getControl :: "DeGrooteFregly2016Muscle \<Rightarrow> State \<Rightarrow> real" where
  "getControl m s = controls s (controlIndex m)"

text \<open>Modelled from the spec: \<^verbatim>\<open>Model::updControls\<close> is missing; it hands out the model's
  controls held by the state.\<close>

definition updControls :: "State \<Rightarrow> nat \<Rightarrow> real" where
  "updControls s = controls s"

text \<open>Modelled from the spec: \<^verbatim>\<open>Actuator::setControls\<close> is missing; it copies the
  actuator's control (a vector of length one here) into the actuator's slot of the model's
  controls.\<close>

definition setControls :: "DeGrooteFregly2016Muscle \<Rightarrow> real \<Rightarrow> (nat \<Rightarrow> real) \<Rightarrow> nat \<Rightarrow> real" where
  "setControls m actuatorControl modelControls = modelControls(controlIndex m := actuatorControl)"

text \<open>Modelled from the spec: \<^verbatim>\<open>Model::setControls\<close> is missing; it stores the model's
  controls in the state.\<close>

definition Model_setControls :: "State \<Rightarrow> (nat \<Rightarrow> real) \<Rightarrow> State" where
  "Model_setControls s cs = s\<lparr>controls := cs\<rparr>"

subsection \<open>Muscle interface\<close>

definition getActivation :: "DeGrooteFregly2016Muscle \<Rightarrow> State \<Rightarrow> exception + real" where
  "getActivation m s =
     (if ignore_activation_dynamics m then Inr (getControl m s)
      else getStateVariableValue s (STATE_ACTIVATION_NAME m))"

definition setActivation :: "DeGrooteFregly2016Muscle \<Rightarrow> State \<Rightarrow> real \<Rightarrow> exception + State" where
  "setActivation m s activation =
     (if ignore_activation_dynamics m then
        (let controls = updControls s;
             controls = setControls m activation controls
         in Inr (Model_setControls s controls))
      else setStateVariableValue s (STATE_ACTIVATION_NAME m) activation)"

definition getNormalizedTendonForceDerivative ::
    "DeGrooteFregly2016Muscle \<Rightarrow> State \<Rightarrow> exception + real" where
  "getNormalizedTendonForceDerivative m s =
     (if ignore_tendon_compliance m then Inr 0.0
      else if m_isTendonDynamicsExplicit m
        then getStateVariableDerivativeValue s (STATE_NORMALIZED_TENDON_FORCE_NAME m)
        else getDiscreteVariableValue s (DERIVATIVE_NORMALIZED_TENDON_FORCE_NAME m))"

definition setNormalizedTendonForce ::
    "DeGrooteFregly2016Muscle \<Rightarrow> State \<Rightarrow> real \<Rightarrow> exception + State" where
  "setNormalizedTendonForce m s normTendonForce =
     (if \<not> ignore_tendon_compliance m then
        (case setStateVariableValue s (STATE_NORMALIZED_TENDON_FORCE_NAME m) normTendonForce of
           Inl e \<Rightarrow> Inl e
         | Inr s1 \<Rightarrow>
             (let s2 = markCacheVariableInvalid s1 ''lengthInfo'';
                  s3 = markCacheVariableInvalid s2 ''velInfo'';
                  s4 = markCacheVariableInvalid s3 ''dynamicsInfo''
              in Inr s4))
      else Inr s)"

subsection \<open>Calculation methods\<close>

text \<open>The Gaussian-like lobe. Where \<open>b3 + b4 * x = 0\<close> the source divides the non-positive
  number \<open>-0.5 * square (x - b2)\<close> by the zero \<open>square (b3 + b4 * x)\<close>: for \<open>x \<noteq> b2\<close> that is
  minus infinity, whose \<^verbatim>\<open>exp\<close> is 0, and for \<open>x = b2\<close> it is NaN.\<close>

definition calcGaussianLikeCurve :: "real \<Rightarrow> real \<Rightarrow> real \<Rightarrow> real \<Rightarrow> real \<Rightarrow> real option" where
  "calcGaussianLikeCurve x b1 b2 b3 b4 =
     (if square (b3 + b4 * x) = 0
      then (if square (x - b2) = 0 then None else Some (b1 * 0))
      else Some (b1 * exp (-0.5 * square (x - b2) / square (b3 + b4 * x))))"

text \<open>The derivative of the lobe. Where \<open>b3 + b4 * x = 0\<close> the numerator is 0 (or NaN, for
  \<open>x = b2\<close>) and so is the denominator \<open>cube (b3 + b4 * x)\<close>: the source returns NaN.\<close>

definition calcGaussianLikeCurveDerivative ::
    "real \<Rightarrow> real \<Rightarrow> real \<Rightarrow> real \<Rightarrow> real \<Rightarrow> real option" where
  "calcGaussianLikeCurveDerivative x b1 b2 b3 b4 =
     (if cube (b3 + b4 * x) = 0 then None
      else Some ((b1 * exp (- square (b2 - x) / (2 * square (b3 + b4 * x))) *
                    (b2 - x) * (b3 + b2 * b4)) /
                 cube (b3 + b4 * x)))"

text \<open>Auxiliary: the exponent of a lobe, with its sign removed.\<close>

definition lobe_exponent :: "real \<Rightarrow> real \<Rightarrow> real \<Rightarrow> real \<Rightarrow> real" where
  "lobe_exponent x b2 b3 b4 = 0.5 * square (x - b2) / square (b3 + b4 * x)"

text \<open>With a zero scale the shifted argument is already infinite or NaN.\<close>

definition calcActiveForceLengthMultiplier ::
    "DeGrooteFregly2016Muscle \<Rightarrow> real \<Rightarrow> real option" where
  "calcActiveForceLengthMultiplier m normFiberLength =
     (let scale = active_force_width_scale m in
      if scale = 0 then None
      else
        (let x = (normFiberLength - 1.0) / scale + 1.0 in
         case (calcGaussianLikeCurve x b11 b21 b31 b41,
               calcGaussianLikeCurve x b12 b22 b32 b42,
               calcGaussianLikeCurve x b13 b23 b33 b43) of
           (Some g1, Some g2, Some g3) \<Rightarrow> Some (g1 + g2 + g3)
         | _ \<Rightarrow> None))"

definition calcActiveForceLengthMultiplierDerivative ::
    "DeGrooteFregly2016Muscle \<Rightarrow> real \<Rightarrow> real option" where
  "calcActiveForceLengthMultiplierDerivative m normFiberLength =
     (let scale = active_force_width_scale m in
      if scale = 0 then None
      else
        (let x = (normFiberLength - 1.0) / scale + 1.0 in
         case (calcGaussianLikeCurveDerivative x b11 b21 b31 b41,
               calcGaussianLikeCurveDerivative x b12 b22 b32 b42,
               calcGaussianLikeCurveDerivative x b13 b23 b33 b43) of
           (Some g1, Some g2, Some g3) \<Rightarrow> Some ((1.0 / scale) * (g1 + g2 + g3))
         | _ \<Rightarrow> None))"

text \<open>The argument of \<^verbatim>\<open>log\<close> is \<open>tempV + sqrt (tempV\<^sup>2 + 1)\<close>, which is positive for every
  real \<open>tempV\<close> (lemma \<open>tempLogArg_pos\<close> below), and the constants \<open>d1\<close>, \<open>d2\<close> that the
  inverse divides by are not zero: both functions are total.\<close>

definition calcForceVelocityMultiplier :: "real \<Rightarrow> real" where
  "calcForceVelocityMultiplier normFiberVelocity =
     (let tempV = d2 * normFiberVelocity + d3;
          tempLogArg = tempV + sqrt (square tempV + 1.0)
      in d1 * ln tempLogArg + d4)"

definition calcForceVelocityInverseCurve :: "real \<Rightarrow> real" where
  "calcForceVelocityInverseCurve forceVelocityMult =
     (sinh (1.0 / d1 * (forceVelocityMult - d4)) - d3) / d2"

text \<open>The passive curve divides by \<open>e0\<close> and by \<open>denom\<close>.\<close>

definition calcPassiveForceMultiplier :: "DeGrooteFregly2016Muscle \<Rightarrow> real \<Rightarrow> real option" where
  "calcPassiveForceMultiplier m normFiberLength =
     (if ignore_passive_fiber_force m then Some 0
      else
        (let e0 = passive_fiber_strain_at_one_norm_force m in
         if e0 = 0 then None
         else
           (let offset = exp (kPE * (m_minNormFiberLength - 1.0) / e0);
                denom = exp kPE - offset
            in if denom = 0 then None
               else Some ((exp (kPE * (normFiberLength - 1.0) / e0) - offset) / denom))))"

definition calcTendonForceMultiplier :: "DeGrooteFregly2016Muscle \<Rightarrow> real \<Rightarrow> real" where
  "calcTendonForceMultiplier m normTendonLength =
     c1 * exp (m_kT m * (normTendonLength - c2)) - c3"

definition calcTendonForceMultiplierDerivative :: "DeGrooteFregly2016Muscle \<Rightarrow> real \<Rightarrow> real" where
  "calcTendonForceMultiplierDerivative m normTendonLength =
     c1 * m_kT m * exp (m_kT m * (normTendonLength - c2))"

text \<open>The inverse takes \<^verbatim>\<open>log\<close> of \<open>(1 / c1) * (normTendonForce + c3)\<close> and divides by
  \<open>m_kT\<close>.\<close>

definition calcTendonForceLengthInverseCurve ::
    "DeGrooteFregly2016Muscle \<Rightarrow> real \<Rightarrow> real option" where
  "calcTendonForceLengthInverseCurve m normTendonForce =
     (let logArg = (1.0 / c1) * (normTendonForce + c3) in
      if logArg \<le> 0 \<or> m_kT m = 0 then None
      else Some (ln logArg / m_kT m + c2))"

text \<open>The four output parameters of \<^verbatim>\<open>calcFiberForce\<close>.\<close>

record FiberForce =
  activeFiberForce :: real
  conPassiveFiberForce :: real
  nonConPassiveFiberForce :: real
  totalFiberForce :: real

definition calcFiberForce ::
    "DeGrooteFregly2016Muscle \<Rightarrow> real \<Rightarrow> real \<Rightarrow> real \<Rightarrow> real \<Rightarrow> real \<Rightarrow> FiberForce" where
  "calcFiberForce m activation activeForceLengthMultiplier forceVelocityMultiplier
       normPassiveFiberForce normFiberVelocity =
     (let maxIsometricForce = max_isometric_force m;
          active = maxIsometricForce *
                     (activation * activeForceLengthMultiplier * forceVelocityMultiplier);
          conPassive = maxIsometricForce * normPassiveFiberForce;
          nonConPassive = maxIsometricForce * fiber_damping m * normFiberVelocity
      in \<lparr>activeFiberForce = active,
          conPassiveFiberForce = conPassive,
          nonConPassiveFiberForce = nonConPassive,
          totalFiberForce = active + conPassive + nonConPassive\<rparr>)"

text \<open>The compliant branch divides by the tendon slack length.\<close>

definition calcTendonStiffness :: "DeGrooteFregly2016Muscle \<Rightarrow> real \<Rightarrow> SimTK_Real option" where
  "calcTendonStiffness m normTendonLength =
     (if ignore_tendon_compliance m then Some Infinity
      else if tendon_slack_length m = 0 then None
      else Some (Finite ((max_isometric_force m / tendon_slack_length m) *
                           calcTendonForceMultiplierDerivative m normTendonLength)))"

subsection \<open>Binary64 evaluation of a lobe denominator\<close>





subsection \<open>An example muscle and an example state\<close>

text \<open>Objects for the concrete instances below. The muscle has the default values that the
  property documentation of the header gives (width scale 1.0, fiber damping 0, passive fiber
  force not ignored, passive strain 0.6); the other values are free choices.\<close>

definition example_muscle :: DeGrooteFregly2016Muscle where
  "example_muscle =
     \<lparr>max_isometric_force = 1000,
      optimal_fiber_length = 0.1,
      tendon_slack_length = 0.2,
      ignore_activation_dynamics = False,
      ignore_tendon_compliance = False,
      active_force_width_scale = 1.0,
      fiber_damping = 0,
      ignore_passive_fiber_force = False,
      passive_fiber_strain_at_one_norm_force = 0.6,
      m_kT = 35,
      m_isTendonDynamicsExplicit = True,
      controlIndex = 0,
      STATE_ACTIVATION_NAME = ''activation'',
      STATE_NORMALIZED_TENDON_FORCE_NAME = ''normalized_tendon_force'',
      DERIVATIVE_NORMALIZED_TENDON_FORCE_NAME = ''implicitderiv_normalized_tendon_force'',
      RESIDUAL_NORMALIZED_TENDON_FORCE_NAME = ''implicitresidual_normalized_tendon_force''\<rparr>"

definition example_state :: State where
  "example_state =
     \<lparr>controls = (\<lambda>_. 0),
      stateVariables = [''activation'' \<mapsto> 0.5, ''normalized_tendon_force'' \<mapsto> 1],
      stateVariableDerivatives = [''activation'' \<mapsto> 0, ''normalized_tendon_force'' \<mapsto> 0],
      discreteVariables = Map.empty,
      validCacheVariables = {''lengthInfo'', ''velInfo'', ''dynamicsInfo''}\<rparr>"

section \<open>Properties\<close>

subsection \<open>Auxiliary facts\<close>

lemma tempLogArg_pos: "0 < t + sqrt (square t + 1.0)"
proof -
  have "\<bar>t\<bar> < sqrt (t\<^sup>2 + 1)"
    by (rule real_less_rsqrt) simp
  then show ?thesis
    by (simp add: square_def power2_eq_square abs_less_iff)
qed

lemma calcGaussianLikeCurve_regular:
  assumes "b3 + b4 * x \<noteq> 0"
  shows "calcGaussianLikeCurve x b1 b2 b3 b4 = Some (b1 * exp (- lobe_exponent x b2 b3 b4))"
  using assms by (simp add: calcGaussianLikeCurve_def lobe_exponent_def square_def)

lemma calcGaussianLikeCurveDerivative_regular:
  assumes "b3 + b4 * x \<noteq> 0"
  shows "calcGaussianLikeCurveDerivative x b1 b2 b3 b4 =
    Some (b1 * exp (- lobe_exponent x b2 b3 b4) * (b2 - x) * (b3 + b2 * b4) / cube (b3 + b4 * x))"
proof -
  have "square (b2 - x) = square (x - b2)"
    by (simp add: square_def algebra_simps)
  then have "- square (b2 - x) / (2 * square (b3 + b4 * x)) = - lobe_exponent x b2 b3 b4"
    by (simp add: lobe_exponent_def)
  moreover have "cube (b3 + b4 * x) \<noteq> 0"
    using assms by (simp add: cube_def)
  ultimately show ?thesis
    by (simp add: calcGaussianLikeCurveDerivative_def)
qed

subsection \<open>Rational bounds for the exponential function\<close>

text \<open>The values that the properties below put numbers on (the force-velocity curve at \<open>-1\<close>
  and \<open>0\<close>, the active force-length curve at \<open>1\<close>) are logarithms and exponentials of
  rationals. They are enclosed by the Taylor polynomial of degree 9 with its remainder,
  evaluated in Horner form with outward rounding, and by repeated squaring.\<close>

lemma exp_taylor_lower:
  fixes x :: real
  assumes "0 \<le> x"
  shows "(\<Sum>m<n. x ^ m / fact m) \<le> exp x"
proof -
  obtain t where "exp x = (\<Sum>m<n. x ^ m / fact m) + (exp t / fact n) * x ^ n"
    using Maclaurin_exp_le [of x n] by blast
  moreover have "0 \<le> (exp t / fact n) * x ^ n"
    using assms by simp
  ultimately show ?thesis by linarith
qed

lemma exp_taylor_upper:
  fixes x :: real
  assumes "0 \<le> x" "x \<le> 1"
  shows "exp x \<le> (\<Sum>m<n. x ^ m / fact m) + 3 * x ^ n / fact n"
proof -
  obtain t where t: "\<bar>t\<bar> \<le> \<bar>x\<bar>"
      "exp x = (\<Sum>m<n. x ^ m / fact m) + (exp t / fact n) * x ^ n"
    using Maclaurin_exp_le [of x n] by blast
  have "t \<le> 1" using t(1) assms by linarith
  then have "exp t \<le> exp 1" by simp
  also have "\<dots> \<le> 3" by (rule exp_le)
  finally have "exp t \<le> 3" .
  then have "(exp t / fact n) * x ^ n \<le> (3 / fact n) * x ^ n"
    using assms by (intro mult_right_mono divide_right_mono) simp_all
  with t(2) show ?thesis by simp
qed

lemma horner_step_upper:
  fixes x :: real
  assumes "0 \<le> x" "a \<le> h" "1 + x / c * h \<le> h'" "0 < c"
  shows "1 + x / c * a \<le> h'"
proof -
  have "x / c * a \<le> x / c * h"
    using assms by (intro mult_left_mono) simp_all
  with assms(3) show ?thesis by linarith
qed

lemma horner_step_lower:
  fixes x :: real
  assumes "0 \<le> x" "l \<le> a" "l' \<le> 1 + x / c * l" "0 < c"
  shows "l' \<le> 1 + x / c * a"
proof -
  have "x / c * l \<le> x / c * a"
    using assms by (intro mult_left_mono) simp_all
  with assms(3) show ?thesis by linarith
qed

lemma exp_upper_horner10:
  fixes x :: real
  assumes x: "0 \<le> x" "x \<le> 1"
    and u: "1 + x / 10 * 3 \<le> uj" "1 + x / 9 * uj \<le> ui" "1 + x / 8 * ui \<le> uh"
      "1 + x / 7 * uh \<le> ug" "1 + x / 6 * ug \<le> uf" "1 + x / 5 * uf \<le> ue"
      "1 + x / 4 * ue \<le> ud" "1 + x / 3 * ud \<le> uc" "1 + x / 2 * uc \<le> ub"
      "1 + x / 1 * ub \<le> ua"
  shows "exp x \<le> ua"
proof -
  note step = horner_step_upper [OF x(1)]
  have "exp x \<le> (\<Sum>m<10. x ^ m / fact m) + 3 * x ^ 10 / fact 10"
    using x by (rule exp_taylor_upper)
  also have "\<dots> = 1 + x / 1 * (1 + x / 2 * (1 + x / 3 * (1 + x / 4 * (1 + x / 5 *
      (1 + x / 6 * (1 + x / 7 * (1 + x / 8 * (1 + x / 9 * (1 + x / 10 * 3)))))))))"
    by (simp add: lessThan_nat_numeral lessThan_Suc fact_numeral field_simps power_numeral_reduce)
  also have "\<dots> \<le> ua"
  proof -
    have "1 + x / 9 * (1 + x / 10 * 3) \<le> ui"
      by (rule step [OF u(1) u(2)]) simp
    then have "1 + x / 8 * (1 + x / 9 * (1 + x / 10 * 3)) \<le> uh"
      by (rule step [OF _ u(3)]) simp
    then have "1 + x / 7 * (1 + x / 8 * (1 + x / 9 * (1 + x / 10 * 3))) \<le> ug"
      by (rule step [OF _ u(4)]) simp
    then have "1 + x / 6 * (1 + x / 7 * (1 + x / 8 * (1 + x / 9 * (1 + x / 10 * 3)))) \<le> uf"
      by (rule step [OF _ u(5)]) simp
    then have "1 + x / 5 * (1 + x / 6 * (1 + x / 7 * (1 + x / 8 * (1 + x / 9 *
        (1 + x / 10 * 3))))) \<le> ue"
      by (rule step [OF _ u(6)]) simp
    then have "1 + x / 4 * (1 + x / 5 * (1 + x / 6 * (1 + x / 7 * (1 + x / 8 * (1 + x / 9 *
        (1 + x / 10 * 3)))))) \<le> ud"
      by (rule step [OF _ u(7)]) simp
    then have "1 + x / 3 * (1 + x / 4 * (1 + x / 5 * (1 + x / 6 * (1 + x / 7 * (1 + x / 8 *
        (1 + x / 9 * (1 + x / 10 * 3))))))) \<le> uc"
      by (rule step [OF _ u(8)]) simp
    then have "1 + x / 2 * (1 + x / 3 * (1 + x / 4 * (1 + x / 5 * (1 + x / 6 * (1 + x / 7 *
        (1 + x / 8 * (1 + x / 9 * (1 + x / 10 * 3)))))))) \<le> ub"
      by (rule step [OF _ u(9)]) simp
    then show ?thesis
      by (rule step [OF _ u(10)]) simp
  qed
  finally show ?thesis .
qed

lemma exp_lower_horner10:
  fixes x :: real
  assumes x: "0 \<le> x"
    and l: "li \<le> 1 + x / 9 * 1" "lh \<le> 1 + x / 8 * li"
      "lg \<le> 1 + x / 7 * lh" "lf \<le> 1 + x / 6 * lg" "le \<le> 1 + x / 5 * lf"
      "ld \<le> 1 + x / 4 * le" "lc \<le> 1 + x / 3 * ld" "lb \<le> 1 + x / 2 * lc"
      "la \<le> 1 + x / 1 * lb"
  shows "la \<le> exp x"
proof -
  note step = horner_step_lower [OF x]
  have "lh \<le> 1 + x / 8 * (1 + x / 9 * 1)"
    by (rule step [OF l(1) l(2)]) simp
  then have "lg \<le> 1 + x / 7 * (1 + x / 8 * (1 + x / 9 * 1))"
    by (rule step [OF _ l(3)]) simp
  then have "lf \<le> 1 + x / 6 * (1 + x / 7 * (1 + x / 8 * (1 + x / 9 * 1)))"
    by (rule step [OF _ l(4)]) simp
  then have "le \<le> 1 + x / 5 * (1 + x / 6 * (1 + x / 7 * (1 + x / 8 * (1 + x / 9 * 1))))"
    by (rule step [OF _ l(5)]) simp
  then have "ld \<le> 1 + x / 4 * (1 + x / 5 * (1 + x / 6 * (1 + x / 7 * (1 + x / 8 *
      (1 + x / 9 * 1)))))"
    by (rule step [OF _ l(6)]) simp
  then have "lc \<le> 1 + x / 3 * (1 + x / 4 * (1 + x / 5 * (1 + x / 6 * (1 + x / 7 *
      (1 + x / 8 * (1 + x / 9 * 1))))))"
    by (rule step [OF _ l(7)]) simp
  then have "lb \<le> 1 + x / 2 * (1 + x / 3 * (1 + x / 4 * (1 + x / 5 * (1 + x / 6 *
      (1 + x / 7 * (1 + x / 8 * (1 + x / 9 * 1)))))))"
    by (rule step [OF _ l(8)]) simp
  then have "la \<le> 1 + x / 1 * (1 + x / 2 * (1 + x / 3 * (1 + x / 4 * (1 + x / 5 *
      (1 + x / 6 * (1 + x / 7 * (1 + x / 8 * (1 + x / 9 * 1))))))))"
    by (rule step [OF _ l(9)]) simp
  also have "\<dots> = (\<Sum>m<10. x ^ m / fact m)"
    by (simp add: lessThan_nat_numeral lessThan_Suc fact_numeral field_simps power_numeral_reduce)
  also have "\<dots> \<le> exp x"
    using x by (rule exp_taylor_lower)
  finally show ?thesis .
qed

lemma exp_double_upper:
  fixes x :: real
  assumes "exp x \<le> u" "u * u \<le> u'"
  shows "exp (2 * x) \<le> u'"
proof -
  have "exp (2 * x) = exp x * exp x"
    by (simp add: exp_double power2_eq_square)
  also have "\<dots> \<le> u * u"
    using assms(1) by (intro mult_mono order_trans [OF exp_ge_zero assms(1)]) simp_all
  finally show ?thesis using assms(2) by linarith
qed

lemma exp_double_lower:
  fixes x :: real
  assumes "l \<le> exp x" "0 \<le> l \<and> l' \<le> l * l"
  shows "l' \<le> exp (2 * x)"
proof -
  have "l * l \<le> exp x * exp x"
    using assms by (intro mult_mono) simp_all
  also have "\<dots> = exp (2 * x)"
    by (simp add: exp_double power2_eq_square)
  finally show ?thesis using assms(2) by linarith
qed

lemma exp_minus_upper:
  fixes x :: real
  assumes "l \<le> exp x" "0 < l"
  shows "exp (- x) \<le> 1 / l"
proof -
  have "inverse (exp x) \<le> inverse l"
    using assms by (intro le_imp_inverse_le)
  then show ?thesis by (simp add: exp_minus inverse_eq_divide)
qed

lemma exp_minus_lower:
  fixes x :: real
  assumes "exp x \<le> u"
  shows "1 / u \<le> exp (- x)"
proof -
  have "inverse u \<le> inverse (exp x)"
    using assms by (intro le_imp_inverse_le) simp_all
  then show ?thesis by (simp add: exp_minus inverse_eq_divide)
qed

text \<open>The enclosures.\<close>

lemma exp_fv_m1_upper_0: "exp (0.04294016911791062152 :: real) \<le> 1.04387543699399010457519911"
  by (rule exp_upper_horner10 [where
      uj = "1.012882050735373186456" and
      ui = "1.00483259183945256122590547" and
      uh = "1.0053934601785968186592332" and
      ug = "1.00616739503001575504827023" and
      uf = "1.00720083301725274324926398" and
      ue = "1.00864987482109225778547261" and
      ud = "1.01082789905139426998753124" and
      uc = "1.01446837364478971848860065" and
      ub = "1.02178072176453950646510184"])
    simp_all

lemma exp_fv_m1_upper_1: "exp (0.08588033823582124304 :: real) \<le> 1.08967592795939380457425946"
  using exp_double_upper [OF exp_fv_m1_upper_0, of "1.08967592795939380457425946"] by simp

lemma exp_fv_m1_upper_2: "exp (0.17176067647164248608 :: real) \<le> 1.18739362797416599663546251"
  using exp_double_upper [OF exp_fv_m1_upper_1, of "1.18739362797416599663546251"] by simp

lemma exp_fv_m1_upper_3: "exp (0.34352135294328497216 :: real) \<le> 1.40990362775365212203910265"
  using exp_double_upper [OF exp_fv_m1_upper_2, of "1.40990362775365212203910265"] by simp

lemma exp_fv_m1_upper_4: "exp (0.68704270588656994432 :: real) \<le> 1.98782823955290885028634645"
  using exp_double_upper [OF exp_fv_m1_upper_3, of "1.98782823955290885028634645"] by simp

lemma exp_fv_m1_upper_5: "exp (1.37408541177313988864 :: real) \<le> 3.95146110996401677369015362"
  using exp_double_upper [OF exp_fv_m1_upper_4, of "3.95146110996401677369015362"] by simp

lemma exp_fv_m1_upper_6: "exp (2.74817082354627977728 :: real) \<le> 15.61404490355805946124992124"
  using exp_double_upper [OF exp_fv_m1_upper_5, of "15.61404490355805946124992124"] by simp

lemma exp_fv_m1_lower_0: "1.04387543699399015535255828 \<le> exp (0.04294016911791067018 :: real)"
  by (rule exp_lower_horner10 [where
      li = "1.00477112990199007446444444" and
      lh = "1.00539313028034820556726066" and
      lg = "1.00616739300631767815880411" and
      lf = "1.00720083300276976179841083" and
      le = "1.00864987482096788725298486" and
      ld = "1.01082789905139294713483238" and
      lc = "1.01446837364478971594972296" and
      lb = "1.02178072176453953109260745"])
    simp_all

lemma exp_fv_m1_lower_1: "1.08967592795939391058473544 \<le> exp (0.08588033823582134036 :: real)"
  using exp_double_lower [OF exp_fv_m1_lower_0, of "1.08967592795939391058473544"] by simp

lemma exp_fv_m1_lower_2: "1.18739362797416622766959008 \<le> exp (0.17176067647164268072 :: real)"
  using exp_double_lower [OF exp_fv_m1_lower_1, of "1.18739362797416622766959008"] by simp

lemma exp_fv_m1_lower_3: "1.40990362775365267069600448 \<le> exp (0.34352135294328536144 :: real)"
  using exp_double_lower [OF exp_fv_m1_lower_2, of "1.40990362775365267069600448"] by simp

lemma exp_fv_m1_lower_4: "1.987828239552910397393059 \<le> exp (0.68704270588657072288 :: real)"
  using exp_double_lower [OF exp_fv_m1_lower_3, of "1.987828239552910397393059"] by simp

lemma exp_fv_m1_lower_5: "3.95146110996402292445497923 \<le> exp (1.37408541177314144576 :: real)"
  using exp_double_lower [OF exp_fv_m1_lower_4, of "3.95146110996402292445497923"] by simp

lemma exp_fv_m1_lower_6: "15.61404490355810807026593109 \<le> exp (2.74817082354628289152 :: real)"
  using exp_double_lower [OF exp_fv_m1_lower_5, of "15.61404490355810807026593109"] by simp

lemma exp_fv_0_upper_0: "exp (0.04572351515271675882 :: real) \<le> 1.04678495076585188359103533"
  by (rule exp_upper_horner10 [where
      uj = "1.013717054545815027646" and
      ui = "1.0051500785671214416149546" and
      uh = "1.00574487435601477723361777" and
      ug = "1.0065694558574834934883631" and
      uf = "1.00767064896119358486708892" and
      ue = "1.00921484883734501295259472" and
      ud = "1.01153621260829027448184219" and
      uc = "1.01541699711490562710274038" and
      ub = "1.02321421722695476840727112"])
    simp_all

lemma exp_fv_0_upper_1: "exp (0.09144703030543351764 :: real) \<le> 1.09575873314986695193102459"
  using exp_double_upper [OF exp_fv_0_upper_0, of "1.09575873314986695193102459"] by simp

lemma exp_fv_0_upper_2: "exp (0.18289406061086703528 :: real) \<le> 1.20068720127420133175548292"
  using exp_double_upper [OF exp_fv_0_upper_1, of "1.20068720127420133175548292"] by simp

lemma exp_fv_0_upper_3: "exp (0.36578812122173407056 :: real) \<le> 1.44164975530367446014711278"
  using exp_double_upper [OF exp_fv_0_upper_2, of "1.44164975530367446014711278"] by simp

lemma exp_fv_0_lower_0: "1.04678495076585229100859129 \<le> exp (0.04572351515271714806 :: real)"
  by (rule exp_lower_horner10 [where
      li = "1.00508039057252412756222222" and
      lh = "1.00574447605850520954421499" and
      lg = "1.00656945325583180455527527" and
      lf = "1.00767064894136754009643405" and
      le = "1.0092148488371637881060415" and
      ld = "1.01153621260828830112928476" and
      lc = "1.01541699711490572826998699" and
      lb = "1.02321421722695496834058816"])
    simp_all

lemma exp_fv_0_lower_1: "1.09575873314986780488815709 \<le> exp (0.09144703030543429612 :: real)"
  using exp_double_lower [OF exp_fv_0_lower_0, of "1.09575873314986780488815709"] by simp

lemma exp_fv_0_lower_2: "1.20068720127420320102593679 \<le> exp (0.18289406061086859224 :: real)"
  using exp_double_lower [OF exp_fv_0_lower_1, of "1.20068720127420320102593679"] by simp

lemma exp_fv_0_lower_3: "1.44164975530367894896533214 \<le> exp (0.36578812122173718448 :: real)"
  using exp_double_lower [OF exp_fv_0_lower_2, of "1.44164975530367894896533214"] by simp

lemma exp_lobe1_lower_0: "1.03017714011081240116243015 \<le> exp (0.0297307681446700043278 :: real)"
  by (rule exp_lower_horner10 [where
      li = "1.00330341868274111159197777" and
      lh = "1.00372862266495141893946648" and
      lg = "1.00426308899437437665037647" and
      lf = "1.00497625217585697388806714" and
      le = "1.00597574318886796352869312" and
      ld = "1.00747710789497758218177484" and
      lc = "1.00998435610196275480679103" and
      lb = "1.01501380536050564008804141"])
    simp_all

lemma exp_lobe1_upper_0: "exp (0.0297307681446700043279 :: real) \<le> 1.03017714011081240116297927"
  by (rule exp_upper_horner10 [where
      uj = "1.00891923044340100129837" and
      ui = "1.00333288263522351574836866" and
      uh = "1.00372873216319390393100266" and
      ug = "1.00426308945944107087469626" and
      uf = "1.00497625217816143889771579" and
      ue = "1.00597574318888166623169311" and
      ud = "1.00747710789497768402977146" and
      uc = "1.00998435610196275581616435" and
      ub = "1.01501380536050564010309664"])
    simp_all

lemma exp_lobe2_lower_0: "1.04410615385239548754892838 \<le> exp (0.04316116422663747071325 :: real)"
  by (rule exp_lower_horner10 [where
      li = "1.00479568491407083007925" and
      lh = "1.00542101894634911120214741" and
      lg = "1.00619930595937950827511275" and
      lf = "1.00723812224820690367182714" and
      le = "1.00869471400193696146152176" and
      ld = "1.01088410955139467905363162" and
      lc = "1.01454364502214864331476839" and
      lb = "1.02189444243894617343125366"])
    simp_all

lemma exp_lobe2_lower_1: "1.09015766051244215640512008 \<le> exp (0.0863223284532749414265 :: real)"
  using exp_double_lower [OF exp_lobe2_lower_0, of "1.09015766051244215640512008"] by simp

lemma exp_lobe2_lower_2: "1.1884437247739610844865164 \<le> exp (0.172644656906549882853 :: real)"
  using exp_double_lower [OF exp_lobe2_lower_1, of "1.1884437247739610844865164"] by simp

lemma exp_lobe2_lower_3: "1.41239848695460656355548411 \<le> exp (0.345289313813099765706 :: real)"
  using exp_double_lower [OF exp_lobe2_lower_2, of "1.41239848695460656355548411"] by simp

lemma exp_lobe2_lower_4: "1.99486948595166192709413075 \<le> exp (0.690578627626199531412 :: real)"
  using exp_double_lower [OF exp_lobe2_lower_3, of "1.99486948595166192709413075"] by simp

lemma exp_lobe2_lower_5: "3.97950426598104790269841273 \<le> exp (1.381157255252399062824 :: real)"
  using exp_double_lower [OF exp_lobe2_lower_4, of "3.97950426598104790269841273"] by simp

lemma exp_lobe2_upper_0: "exp (0.043161164226637470713254 :: real) \<le> 1.04410615385239548756748025"
  by (rule exp_upper_horner10 [where
      uj = "1.0129483492679912412139762" and
      ui = "1.00485778111731745575042926" and
      uh = "1.00542135396440238348583356" and
      ug = "1.00619930802506082487131577" and
      uf = "1.00723812226306643876274539" and
      ue = "1.0086947140020652324284007" and
      ud = "1.01088410955139606313469938" and
      uc = "1.01454364502214866322761983" and
      ub = "1.02189444243894617386098663"])
    simp_all

lemma exp_lobe2_upper_1: "exp (0.086322328453274941426508 :: real) \<le> 1.09015766051244215644386034"
  using exp_double_upper [OF exp_lobe2_upper_0, of "1.09015766051244215644386034"] by simp

lemma exp_lobe2_upper_2: "exp (0.172644656906549882853016 :: real) \<le> 1.18844372477396108457098239"
  using exp_double_upper [OF exp_lobe2_upper_1, of "1.18844372477396108457098239"] by simp

lemma exp_lobe2_upper_3: "exp (0.345289313813099765706032 :: real) \<le> 1.41239848695460656375625027"
  using exp_double_upper [OF exp_lobe2_upper_2, of "1.41239848695460656375625027"] by simp

lemma exp_lobe2_upper_4: "exp (0.690578627626199531412064 :: real) \<le> 1.99486948595166192766125441"
  using exp_double_upper [OF exp_lobe2_upper_3, of "1.99486948595166192766125441"] by simp

lemma exp_lobe2_upper_5: "exp (1.381157255252399062824128 :: real) \<le> 3.97950426598104790496108811"
  using exp_double_upper [OF exp_lobe2_upper_4, of "3.97950426598104790496108811"] by simp


subsection \<open>The force-velocity curve at \<open>-1\<close> and at \<open>0\<close>\<close>

lemma ln_fv_minus_one:
  "2.74817082354627977728 \<le> ln (7.775 + sqrt 61.450625) \<and> ln (7.775 + sqrt 61.450625) \<le> 2.74817082354628289152"
proof -
  define r :: real where "r = sqrt 61.450625"
  have rl: "7.839044903558085882843968 \<le> r"
    unfolding r_def by (rule real_le_rsqrt) (simp add: power2_eq_square)
  have ru: "r \<le> 7.839044903558085882843969"
    unfolding r_def by (rule real_le_lsqrt) (simp_all add: power2_eq_square)
  have pos: "0 < 7.775 + r"
    using rl by simp
  have "exp 2.74817082354627977728 \<le> 7.775 + r"
    using exp_fv_m1_upper_6 rl by simp
  then have lower: "2.74817082354627977728 \<le> ln (7.775 + r)"
    using pos by (simp only: ln_ge_iff)
  have "7.775 + r \<le> exp 2.74817082354628289152"
    using exp_fv_m1_lower_6 ru by simp
  then have "ln (7.775 + r) \<le> ln (exp 2.74817082354628289152)"
    using pos by (simp only: ln_le_cancel_iff exp_gt_zero)
  then have "ln (7.775 + r) \<le> 2.74817082354628289152"
    by (simp only: ln_exp)
  with lower show ?thesis
    unfolding r_def by blast
qed


lemma calcForceVelocityMultiplier_minus_one:
  "\<bar>calcForceVelocityMultiplier (-1)\<bar> \<le> 1 / 10 ^ 15"
proof -
  define y :: real where "y = ln (7.775 + sqrt 61.450625)"
  have t: "d2 * (-1) + d3 = (7.775::real)"
    by (simp add: d2_def d3_def)
  have s: "square 7.775 + 1.0 = (61.450625::real)"
    by (simp add: square_def)
  have eq: "calcForceVelocityMultiplier (-1) = d1 * y + d4"
    unfolding calcForceVelocityMultiplier_def Let_def t s y_def ..
  have y: "2.74817082354627977728 \<le> y" "y \<le> 2.74817082354628289152"
    using ln_fv_minus_one unfolding y_def by blast+
  have "d1 * y + d4 \<le> 1 / 10 ^ 15"
    using y(1) unfolding d1_def d4_def by simp
  moreover have "- (d1 * y + d4) \<le> 1 / 10 ^ 15"
    using y(2) unfolding d1_def d4_def by simp
  ultimately show ?thesis
    unfolding eq by (rule abs_leI)
qed


lemma ln_fv_zero:
  "- 0.36578812122173718448 \<le> ln (- 0.374 + sqrt 1.139876) \<and> ln (- 0.374 + sqrt 1.139876) \<le> - 0.36578812122173407056"
proof -
  define r :: real where "r = sqrt 1.139876"
  have rl: "1.067649755303676356347677 \<le> r"
    unfolding r_def by (rule real_le_rsqrt) (simp add: power2_eq_square)
  have ru: "r \<le> 1.067649755303676356347678"
    unfolding r_def by (rule real_le_lsqrt) (simp_all add: power2_eq_square)
  have pos: "0 < - 0.374 + r"
    using rl by simp
  have "exp (- 0.36578812122173718448 :: real) \<le> 1 / 1.44164975530367894896533214"
    by (rule exp_minus_upper [OF exp_fv_0_lower_3]) simp
  also have "\<dots> \<le> - 0.374 + 1.067649755303676356347677"
    by simp
  finally have "exp (- 0.36578812122173718448) \<le> - 0.374 + r"
    using rl by simp
  then have lower: "- 0.36578812122173718448 \<le> ln (- 0.374 + r)"
    using pos by (simp only: ln_ge_iff)
  have "- 0.374 + 1.067649755303676356347678 \<le> (1::real) / 1.44164975530367446014711278"
    by simp
  then have "- 0.374 + r \<le> 1 / 1.44164975530367446014711278"
    using ru by simp
  also have "\<dots> \<le> exp (- 0.36578812122173407056)"
    by (rule exp_minus_lower [OF exp_fv_0_upper_3])
  finally have "ln (- 0.374 + r) \<le> ln (exp (- 0.36578812122173407056))"
    using pos by (simp only: ln_le_cancel_iff exp_gt_zero)
  then have "ln (- 0.374 + r) \<le> - 0.36578812122173407056"
    by (simp only: ln_exp)
  with lower show ?thesis
    unfolding r_def by blast
qed

lemma calcForceVelocityMultiplier_zero:
  "\<bar>calcForceVelocityMultiplier 0 - 1\<bar> \<le> 1 / 10 ^ 15"
proof -
  define y :: real where "y = ln (- 0.374 + sqrt 1.139876)"
  have t: "d2 * 0 + d3 = (- 0.374::real)"
    by (simp add: d2_def d3_def)
  have s: "square (- 0.374) + 1.0 = (1.139876::real)"
    by (simp add: square_def)
  have eq: "calcForceVelocityMultiplier 0 = d1 * y + d4"
    unfolding calcForceVelocityMultiplier_def Let_def t s y_def ..
  have y: "- 0.36578812122173718448 \<le> y" "y \<le> - 0.36578812122173407056"
    using ln_fv_zero unfolding y_def by blast+
  have "d1 * y + d4 - 1 \<le> 1 / 10 ^ 15"
    using y(1) unfolding d1_def d4_def by simp
  moreover have "- (d1 * y + d4 - 1) \<le> 1 / 10 ^ 15"
    using y(2) unfolding d1_def d4_def by simp
  ultimately show ?thesis
    unfolding eq by (rule abs_leI)
qed


subsection \<open>The lobes of the active force-length curve at \<open>1\<close>\<close>


lemma lobe1_exponent_at_one:
  "0.0297307681446700043278 \<le> lobe_exponent 1 b21 b31 b41 \<and> lobe_exponent 1 b21 b31 b41 \<le> 0.0297307681446700043279"
  by (simp add: lobe_exponent_def square_def b21_def b31_def b41_def)

lemma lobe1_exp_at_one:
  "0.970706843574915323628834 \<le> exp (- lobe_exponent 1 b21 b31 b41) \<and>
   exp (- lobe_exponent 1 b21 b31 b41) \<le> 0.970706843574915323629352"
proof -
  define e where "e = lobe_exponent 1 b21 b31 b41"
  have e: "0.0297307681446700043278 \<le> e" "e \<le> 0.0297307681446700043279"
    using lobe1_exponent_at_one unfolding e_def by blast+
  have "exp e \<le> exp 0.0297307681446700043279"
    using e(2) by (simp only: exp_le_cancel_iff)
  then have "exp e \<le> 1.03017714011081240116297927"
    using exp_lobe1_upper_0 by linarith
  then have "1 / 1.03017714011081240116297927 \<le> exp (- e)"
    by (rule exp_minus_lower)
  moreover have "0.970706843574915323628834 \<le> (1::real) / 1.03017714011081240116297927"
    by simp
  moreover have "exp 0.0297307681446700043278 \<le> exp e"
    using e(1) by (simp only: exp_le_cancel_iff)
  then have "1.03017714011081240116243015 \<le> exp e"
    using exp_lobe1_lower_0 by linarith
  then have "exp (- e) \<le> 1 / 1.03017714011081240116243015"
    by (rule exp_minus_upper) simp
  moreover have "(1::real) / 1.03017714011081240116243015 \<le> 0.970706843574915323629352"
    by simp
  ultimately show ?thesis
    unfolding e_def by linarith
qed

lemma lobe1_at_one:
  "\<exists>g. calcGaussianLikeCurve 1 b11 b21 b31 b41 = Some g \<and>
     0.791191224973872358089372 \<le> g \<and> g \<le> 0.791191224973872358089795"
proof -
  define E where "E = exp (- lobe_exponent 1 b21 b31 b41)"
  have nz: "b31 + b41 * 1 \<noteq> 0"
    by (simp add: b31_def b41_def)
  have E: "0.970706843574915323628834 \<le> E" "E \<le> 0.970706843574915323629352"
    using lobe1_exp_at_one unfolding E_def by blast+
  have "calcGaussianLikeCurve 1 b11 b21 b31 b41 = Some (b11 * E)"
    unfolding E_def by (rule calcGaussianLikeCurve_regular [OF nz])
  moreover have "0.791191224973872358089372 \<le> b11 * E" "b11 * E \<le> 0.791191224973872358089795"
    using E unfolding b11_def by simp_all
  ultimately show ?thesis
    by blast
qed

lemma lobe1_derivative_at_one:
  "\<exists>g. calcGaussianLikeCurveDerivative 1 b11 b21 b31 b41 = Some g \<and>
     0.868047983884898288478771 \<le> g \<and> g \<le> 0.868047983884898288479235"
proof -
  define E where "E = exp (- lobe_exponent 1 b21 b31 b41)"
  have nz: "b31 + b41 * 1 \<noteq> 0"
    by (simp add: b31_def b41_def)
  have E: "0.970706843574915323628834 \<le> E" "E \<le> 0.970706843574915323629352"
    using lobe1_exp_at_one unfolding E_def by blast+
  have "calcGaussianLikeCurveDerivative 1 b11 b21 b31 b41 =
      Some (b11 * E * (b21 - 1) * (b31 + b21 * b41) / cube (b31 + b41 * 1))"
    unfolding E_def by (rule calcGaussianLikeCurveDerivative_regular [OF nz])
  moreover have
    "0.868047983884898288478771 \<le> b11 * E * (b21 - 1) * (b31 + b21 * b41) / cube (b31 + b41 * 1)"
    "b11 * E * (b21 - 1) * (b31 + b21 * b41) / cube (b31 + b41 * 1) \<le> 0.868047983884898288479235"
    using E unfolding b11_def b21_def b31_def b41_def cube_def by simp_all
  ultimately show ?thesis
    by blast
qed


lemma lobe2_exponent_at_one:
  "1.381157255252399062824 \<le> lobe_exponent 1 b22 b32 b42 \<and> lobe_exponent 1 b22 b32 b42 \<le> 1.381157255252399062824128"
  by (simp add: lobe_exponent_def square_def b22_def b32_def b42_def)

lemma lobe2_exp_at_one:
  "0.251287580854866817251568 \<le> exp (- lobe_exponent 1 b22 b32 b42) \<and>
   exp (- lobe_exponent 1 b22 b32 b42) \<le> 0.251287580854866817394447"
proof -
  define e where "e = lobe_exponent 1 b22 b32 b42"
  have e: "1.381157255252399062824 \<le> e" "e \<le> 1.381157255252399062824128"
    using lobe2_exponent_at_one unfolding e_def by blast+
  have "exp e \<le> exp 1.381157255252399062824128"
    using e(2) by (simp only: exp_le_cancel_iff)
  then have "exp e \<le> 3.97950426598104790496108811"
    using exp_lobe2_upper_5 by linarith
  then have "1 / 3.97950426598104790496108811 \<le> exp (- e)"
    by (rule exp_minus_lower)
  moreover have "0.251287580854866817251568 \<le> (1::real) / 3.97950426598104790496108811"
    by simp
  moreover have "exp 1.381157255252399062824 \<le> exp e"
    using e(1) by (simp only: exp_le_cancel_iff)
  then have "3.97950426598104790269841273 \<le> exp e"
    using exp_lobe2_lower_5 by linarith
  then have "exp (- e) \<le> 1 / 3.97950426598104790269841273"
    by (rule exp_minus_upper) simp
  moreover have "(1::real) / 3.97950426598104790269841273 \<le> 0.251287580854866817394447"
    by simp
  ultimately show ?thesis
    unfolding e_def by linarith
qed

lemma lobe2_at_one:
  "\<exists>g. calcGaussianLikeCurve 1 b12 b22 b32 b42 = Some g \<and>
     0.108808775026127627286067 \<le> g \<and> g \<le> 0.108808775026127627347935"
proof -
  define E where "E = exp (- lobe_exponent 1 b22 b32 b42)"
  have nz: "b32 + b42 * 1 \<noteq> 0"
    by (simp add: b32_def b42_def)
  have E: "0.251287580854866817251568 \<le> E" "E \<le> 0.251287580854866817394447"
    using lobe2_exp_at_one unfolding E_def by blast+
  have "calcGaussianLikeCurve 1 b12 b22 b32 b42 = Some (b12 * E)"
    unfolding E_def by (rule calcGaussianLikeCurve_regular [OF nz])
  moreover have "0.108808775026127627286067 \<le> b12 * E" "b12 * E \<le> 0.108808775026127627347935"
    using E unfolding b12_def by simp_all
  ultimately show ?thesis
    by blast
qed

lemma lobe2_derivative_at_one:
  "\<exists>g. calcGaussianLikeCurveDerivative 1 b12 b22 b32 b42 = Some g \<and>
     - 0.707837661987074792579884 \<le> g \<and> g \<le> - 0.707837661987074792177415"
proof -
  define E where "E = exp (- lobe_exponent 1 b22 b32 b42)"
  have nz: "b32 + b42 * 1 \<noteq> 0"
    by (simp add: b32_def b42_def)
  have E: "0.251287580854866817251568 \<le> E" "E \<le> 0.251287580854866817394447"
    using lobe2_exp_at_one unfolding E_def by blast+
  have "calcGaussianLikeCurveDerivative 1 b12 b22 b32 b42 =
      Some (b12 * E * (b22 - 1) * (b32 + b22 * b42) / cube (b32 + b42 * 1))"
    unfolding E_def by (rule calcGaussianLikeCurveDerivative_regular [OF nz])
  moreover have
    "- 0.707837661987074792579884 \<le> b12 * E * (b22 - 1) * (b32 + b22 * b42) / cube (b32 + b42 * 1)"
    "b12 * E * (b22 - 1) * (b32 + b22 * b42) / cube (b32 + b42 * 1) \<le> - 0.707837661987074792177415"
    using E unfolding b12_def b22_def b32_def b42_def cube_def by simp_all
  ultimately show ?thesis
    by blast
qed
subsection \<open>Tendon force-length curve\<close>

text \<open>C9. The tendon force-length curve passes through \<open>(1, 0)\<close>: since \<open>c2 = 1\<close> and
  \<open>c1 = c3\<close>, \<open>calcTendonForceMultiplier\<close> at normalized tendon length \<open>1.0\<close> is exactly \<open>0\<close>,
  whatever the stiffness parameter \<open>m_kT\<close> is.\<close>

theorem calcTendonForceMultiplier_at_slack_length:
  "calcTendonForceMultiplier m 1.0 = 0"
  by (simp add: calcTendonForceMultiplier_def c1_def c2_def c3_def)

text \<open>C3. For a muscle whose stiffness parameter \<open>m_kT\<close> is not zero, the inverse tendon
  force-length curve undoes the tendon force-length curve at every normalized tendon length:
  the argument of the logarithm is positive there, and the result is the length itself.\<close>

theorem calcTendonForceLengthInverseCurve_roundtrip:
  assumes "m_kT m \<noteq> 0"
  shows "calcTendonForceLengthInverseCurve m (calcTendonForceMultiplier m x) = Some x"
proof -
  have arg: "(1.0 / c1) * (calcTendonForceMultiplier m x + c3) = exp (m_kT m * (x - c2))"
    by (simp add: calcTendonForceMultiplier_def c1_def c3_def)
  have "ln (exp (m_kT m * (x - c2))) / m_kT m + c2 = x"
    using assms by simp
  then show ?thesis
    using assms unfolding calcTendonForceLengthInverseCurve_def Let_def arg
    by (simp add: not_le)
qed

theorem calcTendonForceLengthInverseCurve_roundtrip_witness:
  "m_kT example_muscle \<noteq> 0 \<and>
   calcTendonForceLengthInverseCurve example_muscle
     (calcTendonForceMultiplier example_muscle 1.02) = Some 1.02"
  using calcTendonForceLengthInverseCurve_roundtrip [of example_muscle "1.02"]
  by (simp add: example_muscle_def)

subsection \<open>Passive force-length curve\<close>

lemma passive_denom_pos:
  assumes "0 < (e0::real)"
  shows "0 < exp kPE - exp (kPE * (m_minNormFiberLength - 1.0) / e0)"
proof -
  have "kPE * (m_minNormFiberLength - 1.0) / e0 < 0"
    using assms by (simp add: kPE_def m_minNormFiberLength_def divide_neg_pos)
  also have "\<dots> < kPE"
    by (simp add: kPE_def)
  finally show ?thesis by simp
qed

lemma calcPassiveForceMultiplier_enabled:
  assumes "\<not> ignore_passive_fiber_force m" "0 < passive_fiber_strain_at_one_norm_force m"
  shows "calcPassiveForceMultiplier m x =
    Some ((exp (kPE * (x - 1.0) / passive_fiber_strain_at_one_norm_force m) -
           exp (kPE * (m_minNormFiberLength - 1.0) / passive_fiber_strain_at_one_norm_force m)) /
          (exp kPE -
           exp (kPE * (m_minNormFiberLength - 1.0) / passive_fiber_strain_at_one_norm_force m)))"
  using assms passive_denom_pos [OF assms(2)]
  by (simp add: calcPassiveForceMultiplier_def Let_def)

text \<open>C4. With the passive fiber force enabled and a positive passive strain parameter,
  \<open>calcPassiveForceMultiplier\<close> is \<open>0\<close> at the minimum normalized fiber length \<open>0.2\<close> and
  strictly increasing above it; with \<open>ignore_passive_fiber_force\<close> set it is \<open>0\<close> at every
  length.\<close>

theorem calcPassiveForceMultiplier_zero_and_increasing:
  "(\<not> ignore_passive_fiber_force m \<and> 0 < passive_fiber_strain_at_one_norm_force m \<longrightarrow>
      calcPassiveForceMultiplier m 0.2 = Some 0 \<and>
      (\<forall>x y. 0.2 < x \<and> x < y \<longrightarrow>
         (\<exists>fx fy. calcPassiveForceMultiplier m x = Some fx \<and>
                  calcPassiveForceMultiplier m y = Some fy \<and> fx < fy))) \<and>
   (ignore_passive_fiber_force m \<longrightarrow> (\<forall>x. calcPassiveForceMultiplier m x = Some 0))"
proof (intro conjI impI allI)
  assume "ignore_passive_fiber_force m"
  then show "calcPassiveForceMultiplier m x = Some 0" for x
    by (simp add: calcPassiveForceMultiplier_def)
next
  assume a: "\<not> ignore_passive_fiber_force m \<and> 0 < passive_fiber_strain_at_one_norm_force m"
  define e0 where "e0 = passive_fiber_strain_at_one_norm_force m"
  have e0: "0 < e0" using a by (simp add: e0_def)
  note closed = calcPassiveForceMultiplier_enabled [of m, folded e0_def]
  show "calcPassiveForceMultiplier m 0.2 = Some 0"
    using a closed [of "0.2"] by (simp add: e0_def m_minNormFiberLength_def)
  fix x y :: real
  assume xy: "0.2 < x \<and> x < y"
  have "kPE * (x - 1.0) / e0 < kPE * (y - 1.0) / e0"
    using xy e0 by (simp add: kPE_def divide_strict_right_mono)
  then have "exp (kPE * (x - 1.0) / e0) - exp (kPE * (m_minNormFiberLength - 1.0) / e0)
      < exp (kPE * (y - 1.0) / e0) - exp (kPE * (m_minNormFiberLength - 1.0) / e0)"
    by simp
  then have "(exp (kPE * (x - 1.0) / e0) - exp (kPE * (m_minNormFiberLength - 1.0) / e0)) /
        (exp kPE - exp (kPE * (m_minNormFiberLength - 1.0) / e0))
      < (exp (kPE * (y - 1.0) / e0) - exp (kPE * (m_minNormFiberLength - 1.0) / e0)) /
        (exp kPE - exp (kPE * (m_minNormFiberLength - 1.0) / e0))"
    using passive_denom_pos [OF e0] by (rule divide_strict_right_mono)
  then show "\<exists>fx fy. calcPassiveForceMultiplier m x = Some fx \<and>
      calcPassiveForceMultiplier m y = Some fy \<and> fx < fy"
    using a closed [of x] closed [of y] by (simp add: e0_def)
qed

theorem calcPassiveForceMultiplier_zero_and_increasing_witness:
  "\<not> ignore_passive_fiber_force example_muscle \<and>
   0 < passive_fiber_strain_at_one_norm_force example_muscle \<and>
   calcPassiveForceMultiplier example_muscle 0.2 = Some 0 \<and>
   (0.2::real) < 1 \<and> (1::real) < 1.5 \<and>
   (\<exists>fx fy. calcPassiveForceMultiplier example_muscle 1 = Some fx \<and>
            calcPassiveForceMultiplier example_muscle 1.5 = Some fy \<and> fx < fy) \<and>
   ignore_passive_fiber_force (example_muscle\<lparr>ignore_passive_fiber_force := True\<rparr>) \<and>
   calcPassiveForceMultiplier (example_muscle\<lparr>ignore_passive_fiber_force := True\<rparr>) 1 = Some 0"
proof -
  have e: "\<not> ignore_passive_fiber_force example_muscle \<and>
      0 < passive_fiber_strain_at_one_norm_force example_muscle"
    by (simp add: example_muscle_def)
  have o: "(0.2::real) < 1 \<and> (1::real) < 1.5"
    by simp
  from calcPassiveForceMultiplier_zero_and_increasing [of example_muscle] e
  have z: "calcPassiveForceMultiplier example_muscle 0.2 = Some 0"
    and i: "\<forall>x y. 0.2 < x \<and> x < y \<longrightarrow>
         (\<exists>fx fy. calcPassiveForceMultiplier example_muscle x = Some fx \<and>
                  calcPassiveForceMultiplier example_muscle y = Some fy \<and> fx < fy)"
    by blast+
  from i o have i': "\<exists>fx fy. calcPassiveForceMultiplier example_muscle 1 = Some fx \<and>
      calcPassiveForceMultiplier example_muscle 1.5 = Some fy \<and> fx < fy"
    by blast
  from calcPassiveForceMultiplier_zero_and_increasing
      [of "example_muscle\<lparr>ignore_passive_fiber_force := True\<rparr>"]
  have "calcPassiveForceMultiplier (example_muscle\<lparr>ignore_passive_fiber_force := True\<rparr>) 1 = Some 0"
    by simp
  with e o z i' show ?thesis
    by simp
qed

subsection \<open>Rigid tendon\<close>

text \<open>C6. In the rigid-tendon configuration (\<open>ignore_tendon_compliance\<close> set),
  \<open>getNormalizedTendonForceDerivative\<close> returns \<open>0\<close> in every state and \<open>calcTendonStiffness\<close>
  returns \<open>SimTK::Infinity\<close> at every normalized tendon length.\<close>

theorem rigid_tendon_derivative_and_stiffness:
  assumes "ignore_tendon_compliance m"
  shows "getNormalizedTendonForceDerivative m s = Inr 0 \<and>
         calcTendonStiffness m normTendonLength = Some Infinity"
  using assms by (simp add: getNormalizedTendonForceDerivative_def calcTendonStiffness_def)

theorem rigid_tendon_derivative_and_stiffness_witness:
  "ignore_tendon_compliance (example_muscle\<lparr>ignore_tendon_compliance := True\<rparr>) \<and>
   getNormalizedTendonForceDerivative
     (example_muscle\<lparr>ignore_tendon_compliance := True\<rparr>) example_state = Inr 0 \<and>
   calcTendonStiffness (example_muscle\<lparr>ignore_tendon_compliance := True\<rparr>) 1.03 = Some Infinity"
  using rigid_tendon_derivative_and_stiffness
    [of "example_muscle\<lparr>ignore_tendon_compliance := True\<rparr>" example_state "1.03"]
  by simp

lemma Diff_three_singletons: "A - {a} - {b} - {c} = A - {a, b, c}"
  by auto

text \<open>C10. With \<open>ignore_tendon_compliance\<close> set, \<open>setNormalizedTendonForce\<close> returns the state
  it was given: no state variable is written and no cache variable is marked invalid. With
  tendon compliance modelled it writes the normalized-tendon-force slot (and marks the three
  cache variables invalid), or throws when the state has no such slot.\<close>

theorem setNormalizedTendonForce_frame:
  "(ignore_tendon_compliance m \<longrightarrow> setNormalizedTendonForce m s f = Inr s) \<and>
   (\<not> ignore_tendon_compliance m \<longrightarrow>
      setNormalizedTendonForce m s f =
        (if stateVariables s (STATE_NORMALIZED_TENDON_FORCE_NAME m) = None then Inl Exception
         else Inr (s\<lparr>stateVariables :=
                       (stateVariables s)(STATE_NORMALIZED_TENDON_FORCE_NAME m \<mapsto> f),
                     validCacheVariables :=
                       validCacheVariables s - {''lengthInfo'', ''velInfo'', ''dynamicsInfo''}\<rparr>)))"
  by (auto simp add: setNormalizedTendonForce_def setStateVariableValue_def
      markCacheVariableInvalid_def Let_def Diff_three_singletons split: option.splits)

theorem setNormalizedTendonForce_frame_witness:
  "ignore_tendon_compliance (example_muscle\<lparr>ignore_tendon_compliance := True\<rparr>) \<and>
   setNormalizedTendonForce (example_muscle\<lparr>ignore_tendon_compliance := True\<rparr>) example_state 2 =
     Inr example_state \<and>
   \<not> ignore_tendon_compliance example_muscle \<and>
   setNormalizedTendonForce example_muscle example_state 2 =
     Inr (example_state\<lparr>stateVariables :=
            (stateVariables example_state)(''normalized_tendon_force'' \<mapsto> 2),
          validCacheVariables := {}\<rparr>)"
  using setNormalizedTendonForce_frame
      [of "example_muscle\<lparr>ignore_tendon_compliance := True\<rparr>" example_state 2]
    setNormalizedTendonForce_frame [of example_muscle example_state 2]
  by (simp add: example_muscle_def example_state_def)

subsection \<open>Activation without activation dynamics\<close>

text \<open>C7. With \<open>ignore_activation_dynamics\<close> set, \<open>setActivation\<close> writes the value into the
  control slot of the muscle and nothing else, \<open>getActivation\<close> reads that slot, so that reading
  after writing returns the value written; the state variables are neither read nor
  written.\<close>

theorem activation_is_control:
  assumes "ignore_activation_dynamics m"
  shows "setActivation m s a = Inr (s\<lparr>controls := (controls s)(controlIndex m := a)\<rparr>) \<and>
         getActivation m s = Inr (getControl m s) \<and>
         getActivation m (s\<lparr>stateVariables := sv\<rparr>) = getActivation m s \<and>
         (\<exists>s'. setActivation m s a = Inr s' \<and> getActivation m s' = Inr a \<and>
               stateVariables s' = stateVariables s)"
  using assms
  by (simp add: setActivation_def getActivation_def getControl_def updControls_def
      setControls_def Model_setControls_def Let_def)

theorem activation_is_control_witness:
  "ignore_activation_dynamics (example_muscle\<lparr>ignore_activation_dynamics := True\<rparr>) \<and>
   (\<exists>s'. setActivation (example_muscle\<lparr>ignore_activation_dynamics := True\<rparr>) example_state 0.7 =
           Inr s' \<and>
         getActivation (example_muscle\<lparr>ignore_activation_dynamics := True\<rparr>) s' = Inr 0.7)"
  using activation_is_control
    [of "example_muscle\<lparr>ignore_activation_dynamics := True\<rparr>" example_state "0.7"
      "stateVariables example_state"]
  by auto
subsection \<open>Force-velocity curve\<close>

lemma calcForceVelocityMultiplier_arsinh:
  "calcForceVelocityMultiplier v = d1 * arsinh (d2 * v + d3) + d4"
  by (simp add: calcForceVelocityMultiplier_def Let_def arsinh_real_def square_def
      power2_eq_square)

lemma calcForceVelocityInverseCurve_roundtrip:
  "calcForceVelocityInverseCurve (calcForceVelocityMultiplier v) = v"
proof -
  have "1.0 / d1 * (d1 * arsinh (d2 * v + d3) + d4 - d4) = arsinh (d2 * v + d3)"
    by (simp add: d1_def)
  then have "calcForceVelocityInverseCurve (calcForceVelocityMultiplier v) =
      (sinh (arsinh (d2 * v + d3)) - d3) / d2"
    unfolding calcForceVelocityInverseCurve_def calcForceVelocityMultiplier_arsinh by simp
  also have "\<dots> = v"
    by (simp add: d2_def)
  finally show ?thesis .
qed

text \<open>C1. For every normalized fiber velocity \<open>v\<close> in \<open>[-1, 1]\<close>, the inverse force-velocity
  curve applied to the force-velocity multiplier of \<open>v\<close> is \<open>v\<close>; and with the constants
  \<open>d1\<close> to \<open>d4\<close> of the header the multiplier is \<open>0\<close> at \<open>-1\<close> and \<open>1\<close> at \<open>0\<close>, both within
  \<open>10\<^sup>-\<^sup>1\<^sup>5\<close>.\<close>

theorem force_velocity_roundtrip_and_key_points:
  "(\<forall>v. -1 \<le> v \<and> v \<le> 1 \<longrightarrow>
      calcForceVelocityInverseCurve (calcForceVelocityMultiplier v) = v) \<and>
   \<bar>calcForceVelocityMultiplier (-1)\<bar> \<le> 1 / 10 ^ 15 \<and>
   \<bar>calcForceVelocityMultiplier 0 - 1\<bar> \<le> 1 / 10 ^ 15"
  using calcForceVelocityInverseCurve_roundtrip calcForceVelocityMultiplier_minus_one
    calcForceVelocityMultiplier_zero
  by blast

theorem force_velocity_roundtrip_and_key_points_witness:
  "-1 \<le> (0.5::real) \<and> (0.5::real) \<le> 1 \<and>
   calcForceVelocityInverseCurve (calcForceVelocityMultiplier 0.5) = 0.5"
proof -
  have h: "-1 \<le> (0.5::real) \<and> (0.5::real) \<le> 1"
    by simp
  from force_velocity_roundtrip_and_key_points
  have "\<forall>v. -1 \<le> v \<and> v \<le> 1 \<longrightarrow>
      calcForceVelocityInverseCurve (calcForceVelocityMultiplier v) = v"
    by (rule conjunct1)
  with h show ?thesis
    by blast
qed

subsection \<open>Active force-length curve at the optimal fiber length\<close>

lemma lobe3_at_one: "calcGaussianLikeCurve 1 b13 b23 b33 b43 = Some 0.1"
  by (simp add: calcGaussianLikeCurve_def square_def b13_def b23_def b33_def b43_def)

lemma lobe3_derivative_at_one: "calcGaussianLikeCurveDerivative 1 b13 b23 b33 b43 = Some 0"
  by (simp add: calcGaussianLikeCurveDerivative_def square_def cube_def b13_def b23_def b33_def
      b43_def)

lemma calcActiveForceLengthMultiplier_at_one:
  assumes "active_force_width_scale m \<noteq> 0"
  shows "\<exists>f. calcActiveForceLengthMultiplier m 1.0 = Some f \<and> \<bar>f - 1\<bar> \<le> 1 / 10 ^ 15"
proof -
  obtain g1 where g1: "calcGaussianLikeCurve 1 b11 b21 b31 b41 = Some g1"
      "0.791191224973872358089372 \<le> g1" "g1 \<le> 0.791191224973872358089795"
    using lobe1_at_one by blast
  obtain g2 where g2: "calcGaussianLikeCurve 1 b12 b22 b32 b42 = Some g2"
      "0.108808775026127627286067 \<le> g2" "g2 \<le> 0.108808775026127627347935"
    using lobe2_at_one by blast
  have "calcActiveForceLengthMultiplier m 1.0 = Some (g1 + g2 + 0.1)"
    using assms by (simp add: calcActiveForceLengthMultiplier_def Let_def g1(1) g2(1) lobe3_at_one)
  moreover have "g1 + g2 + 0.1 - 1 \<le> 1 / 10 ^ 15"
    using g1(3) g2(3) by simp
  then have "\<bar>g1 + g2 + 0.1 - 1\<bar> \<le> 1 / 10 ^ 15"
  proof (rule abs_leI)
    show "- (g1 + g2 + 0.1 - 1) \<le> 1 / 10 ^ 15"
      using g1(2) g2(2) by simp
  qed
  ultimately show ?thesis
    by blast
qed

lemma calcActiveForceLengthMultiplierDerivative_at_one:
  assumes "active_force_width_scale m \<noteq> 0"
  shows "\<exists>d. calcActiveForceLengthMultiplierDerivative m 1.0 = Some d \<and>
    0.16021 \<le> d * active_force_width_scale m \<and> d * active_force_width_scale m \<le> 0.16022"
proof -
  obtain g1 where g1: "calcGaussianLikeCurveDerivative 1 b11 b21 b31 b41 = Some g1"
      "0.868047983884898288478771 \<le> g1" "g1 \<le> 0.868047983884898288479235"
    using lobe1_derivative_at_one by blast
  obtain g2 where g2: "calcGaussianLikeCurveDerivative 1 b12 b22 b32 b42 = Some g2"
      "- 0.707837661987074792579884 \<le> g2" "g2 \<le> - 0.707837661987074792177415"
    using lobe2_derivative_at_one by blast
  have "calcActiveForceLengthMultiplierDerivative m 1.0 =
      Some ((1.0 / active_force_width_scale m) * (g1 + g2 + 0))"
    using assms
    by (simp add: calcActiveForceLengthMultiplierDerivative_def Let_def g1(1) g2(1)
        lobe3_derivative_at_one)
  moreover have "(1.0 / active_force_width_scale m) * (g1 + g2 + 0) * active_force_width_scale m
      = g1 + g2"
    using assms by simp
  moreover have "0.16021 \<le> g1 + g2"
    using g1(2) g2(2) by simp
  moreover have "g1 + g2 \<le> 0.16022"
    using g1(3) g2(3) by simp
  ultimately show ?thesis
    by simp
qed

text \<open>C2, as amended. For every positive width scale \<open>s\<close>,
  \<open>calcActiveForceLengthMultiplier\<close> at normalized fiber length \<open>1.0\<close> returns \<open>1.0\<close> within
  \<open>10\<^sup>-\<^sup>1\<^sup>5\<close>, so the curve passes through \<open>(1, 1)\<close> whatever \<open>s\<close> is; its derivative there is
  not \<open>0\<close>: \<open>calcActiveForceLengthMultiplierDerivative\<close> at \<open>1.0\<close> returns \<open>D / s\<close> with
  \<open>0.16021 \<le> D \<le> 0.16022\<close>.\<close>

theorem active_force_length_at_optimal_length:
  assumes "0 < active_force_width_scale m"
  shows "\<exists>f d. calcActiveForceLengthMultiplier m 1.0 = Some f \<and> \<bar>f - 1\<bar> \<le> 1 / 10 ^ 15 \<and>
    calcActiveForceLengthMultiplierDerivative m 1.0 = Some d \<and>
    0.16021 \<le> d * active_force_width_scale m \<and> d * active_force_width_scale m \<le> 0.16022"
proof -
  have s: "active_force_width_scale m \<noteq> 0"
    using assms by simp
  show ?thesis
    using calcActiveForceLengthMultiplier_at_one [OF s]
      calcActiveForceLengthMultiplierDerivative_at_one [OF s]
    by blast
qed

theorem active_force_length_at_optimal_length_witness:
  "0 < active_force_width_scale example_muscle \<and>
   (\<exists>f d. calcActiveForceLengthMultiplier example_muscle 1.0 = Some f \<and>
      \<bar>f - 1\<bar> \<le> 1 / 10 ^ 15 \<and>
      calcActiveForceLengthMultiplierDerivative example_muscle 1.0 = Some d \<and>
      0.16021 \<le> d \<and> d \<le> 0.16022)"
proof -
  have h: "0 < active_force_width_scale example_muscle"
    by (simp add: example_muscle_def)
  have "active_force_width_scale example_muscle = 1"
    by (simp add: example_muscle_def)
  with active_force_length_at_optimal_length [OF h] h show ?thesis
    by simp
qed

text \<open>The claim as stated fails at the default width scale \<open>1\<close>: the derivative at \<open>1.0\<close> is
  not \<open>0\<close>.\<close>

theorem active_force_length_derivative_at_one_counterexample:
  "calcActiveForceLengthMultiplierDerivative example_muscle 1.0 \<noteq> Some 0"
proof -
  have s: "active_force_width_scale example_muscle \<noteq> 0"
    by (simp add: example_muscle_def)
  obtain d where "calcActiveForceLengthMultiplierDerivative example_muscle 1.0 = Some d"
      "0.16021 \<le> d * active_force_width_scale example_muscle"
    using calcActiveForceLengthMultiplierDerivative_at_one [OF s] by blast
  then show ?thesis
    by auto
qed

subsection \<open>Fiber force at the optimal fiber length\<close>

lemma product_near_one:
  fixes a b :: real
  assumes "\<bar>a - 1\<bar> \<le> 1 / 10 ^ 15" "\<bar>b - 1\<bar> \<le> 1 / 10 ^ 15"
  shows "\<bar>a * b - 1\<bar> \<le> 3 / 10 ^ 15"
proof -
  have b: "\<bar>b\<bar> \<le> 2"
    using assms(2) unfolding abs_le_iff by simp
  have "a * b - 1 = (a - 1) * b + (b - 1)"
    by (simp add: algebra_simps)
  then have "\<bar>a * b - 1\<bar> \<le> \<bar>a - 1\<bar> * \<bar>b\<bar> + \<bar>b - 1\<bar>"
    by (metis abs_mult abs_triangle_ineq)
  moreover have "\<bar>a - 1\<bar> * \<bar>b\<bar> \<le> (1 / 10 ^ 15) * 2"
    using assms(1) b by (intro mult_mono) simp_all
  ultimately show ?thesis
    using assms(2) by simp
qed

text \<open>C8. With activation \<open>1.0\<close>, the fiber at its optimal length (normalized fiber length
  \<open>1.0\<close>) and normalized fiber velocity \<open>0\<close>, \<open>calcFiberForce\<close> gives the active force
  \<open>maxIsometricForce\<close> times the active force-length multiplier at \<open>1\<close> times the force-velocity
  multiplier at \<open>0\<close>, the passive force \<open>maxIsometricForce\<close> times the passive multiplier at
  \<open>1.0\<close>, no damping force, and their sum as total; the two multipliers are \<open>1.0\<close> within
  \<open>10\<^sup>-\<^sup>1\<^sup>5\<close>, so that the total is \<open>maxIsometricForce \<times> 1.0 \<times> 1.0\<close> plus the passive force up
  to \<open>3 \<times> 10\<^sup>-\<^sup>1\<^sup>5\<close> times \<open>maxIsometricForce\<close>. The passive multiplier at \<open>1.0\<close> has the closed
  form \<open>(1 - offset) / (exp kPE - offset)\<close> with \<open>offset = exp (kPE * (0.2 - 1) / e0)\<close>,
  and is \<open>0\<close> when the passive fiber force is ignored.
  \<open>calcFiberForce\<close> does not read the tendon compliance flag.\<close>

theorem calcFiberForce_at_optimal_length:
  assumes "0 < active_force_width_scale m"
    and "ignore_passive_fiber_force m \<or> 0 < passive_fiber_strain_at_one_norm_force m"
  shows "\<exists>fl fp.
    calcActiveForceLengthMultiplier m 1.0 = Some fl \<and>
    calcPassiveForceMultiplier m 1.0 = Some fp \<and>
    fp = (if ignore_passive_fiber_force m then 0
          else (1 - exp (kPE * (0.2 - 1.0) / passive_fiber_strain_at_one_norm_force m)) /
               (exp kPE - exp (kPE * (0.2 - 1.0) / passive_fiber_strain_at_one_norm_force m))) \<and>
    \<bar>fl - 1\<bar> \<le> 1 / 10 ^ 15 \<and> \<bar>calcForceVelocityMultiplier 0 - 1\<bar> \<le> 1 / 10 ^ 15 \<and>
    activeFiberForce (calcFiberForce m 1.0 fl (calcForceVelocityMultiplier 0) fp 0) =
      max_isometric_force m * (fl * calcForceVelocityMultiplier 0) \<and>
    conPassiveFiberForce (calcFiberForce m 1.0 fl (calcForceVelocityMultiplier 0) fp 0) =
      max_isometric_force m * fp \<and>
    nonConPassiveFiberForce (calcFiberForce m 1.0 fl (calcForceVelocityMultiplier 0) fp 0) = 0 \<and>
    totalFiberForce (calcFiberForce m 1.0 fl (calcForceVelocityMultiplier 0) fp 0) =
      max_isometric_force m * (fl * calcForceVelocityMultiplier 0) + max_isometric_force m * fp \<and>
    \<bar>totalFiberForce (calcFiberForce m 1.0 fl (calcForceVelocityMultiplier 0) fp 0) -
       (max_isometric_force m * 1.0 * 1.0 + max_isometric_force m * fp)\<bar>
      \<le> \<bar>max_isometric_force m\<bar> * (3 / 10 ^ 15)"
proof -
  define F where "F = max_isometric_force m"
  define fv where "fv = calcForceVelocityMultiplier 0"
  have s: "active_force_width_scale m \<noteq> 0"
    using assms(1) by simp
  obtain fl where fl: "calcActiveForceLengthMultiplier m 1.0 = Some fl" "\<bar>fl - 1\<bar> \<le> 1 / 10 ^ 15"
    using calcActiveForceLengthMultiplier_at_one [OF s] by blast
  define fp where "fp =
    (if ignore_passive_fiber_force m then 0
     else (1 - exp (kPE * (0.2 - 1.0) / passive_fiber_strain_at_one_norm_force m)) /
          (exp kPE - exp (kPE * (0.2 - 1.0) / passive_fiber_strain_at_one_norm_force m)))"
  have fp: "calcPassiveForceMultiplier m 1.0 = Some fp"
  proof (cases "ignore_passive_fiber_force m")
    case True
    then show ?thesis
      by (simp add: calcPassiveForceMultiplier_def fp_def)
  next
    case False
    with assms(2) have "0 < passive_fiber_strain_at_one_norm_force m"
      by simp
    from calcPassiveForceMultiplier_enabled [OF False this, of "1.0"] False show ?thesis
      by (simp add: fp_def m_minNormFiberLength_def)
  qed
  have fv: "\<bar>fv - 1\<bar> \<le> 1 / 10 ^ 15"
    unfolding fv_def by (rule calcForceVelocityMultiplier_zero)
  have ff: "calcFiberForce m 1.0 fl fv fp 0 =
      \<lparr>activeFiberForce = F * (fl * fv), conPassiveFiberForce = F * fp,
       nonConPassiveFiberForce = 0, totalFiberForce = F * (fl * fv) + F * fp\<rparr>"
    by (simp add: calcFiberForce_def Let_def F_def)
  have "F * (fl * fv) + F * fp - (F * 1.0 * 1.0 + F * fp) = F * (fl * fv - 1)"
    by (simp add: algebra_simps)
  then have "\<bar>F * (fl * fv) + F * fp - (F * 1.0 * 1.0 + F * fp)\<bar> = \<bar>F\<bar> * \<bar>fl * fv - 1\<bar>"
    by (simp only: abs_mult)
  also have "\<dots> \<le> \<bar>F\<bar> * (3 / 10 ^ 15)"
    using product_near_one [OF fl(2) fv] by (intro mult_left_mono) simp_all
  finally have "\<bar>totalFiberForce (calcFiberForce m 1.0 fl fv fp 0) -
      (F * 1.0 * 1.0 + F * fp)\<bar> \<le> \<bar>F\<bar> * (3 / 10 ^ 15)"
    by (simp only: ff FiberForce.simps)
  with fl fp fv ff show ?thesis
    unfolding F_def fv_def fp_def by simp
qed

theorem calcFiberForce_at_optimal_length_witness:
  "0 < active_force_width_scale example_muscle \<and>
   (ignore_passive_fiber_force example_muscle \<or>
    0 < passive_fiber_strain_at_one_norm_force example_muscle) \<and>
   (\<exists>fl fp.
      calcActiveForceLengthMultiplier example_muscle 1.0 = Some fl \<and>
      calcPassiveForceMultiplier example_muscle 1.0 = Some fp \<and>
      nonConPassiveFiberForce
        (calcFiberForce example_muscle 1.0 fl (calcForceVelocityMultiplier 0) fp 0) = 0 \<and>
      \<bar>totalFiberForce
          (calcFiberForce example_muscle 1.0 fl (calcForceVelocityMultiplier 0) fp 0) -
        (1000 + 1000 * fp)\<bar> \<le> 3 / 10 ^ 12)"
proof -
  have h: "0 < active_force_width_scale example_muscle"
    "ignore_passive_fiber_force example_muscle \<or>
     0 < passive_fiber_strain_at_one_norm_force example_muscle"
    by (simp_all add: example_muscle_def)
  have F: "max_isometric_force example_muscle = 1000"
    by (simp add: example_muscle_def)
  obtain fl fp where
    "calcActiveForceLengthMultiplier example_muscle 1.0 = Some fl"
    "calcPassiveForceMultiplier example_muscle 1.0 = Some fp"
    "nonConPassiveFiberForce
        (calcFiberForce example_muscle 1.0 fl (calcForceVelocityMultiplier 0) fp 0) = 0"
    "\<bar>totalFiberForce
          (calcFiberForce example_muscle 1.0 fl (calcForceVelocityMultiplier 0) fp 0) -
        (max_isometric_force example_muscle * 1.0 * 1.0 +
         max_isometric_force example_muscle * fp)\<bar>
      \<le> \<bar>max_isometric_force example_muscle\<bar> * (3 / 10 ^ 15)"
    using calcFiberForce_at_optimal_length [OF h] by blast
  then show ?thesis
    using h unfolding F by (intro conjI exI [of _ fl] exI [of _ fp]) simp_all
qed
subsection \<open>The derivative of the active force-length curve\<close>







subsection \<open>Evaluating binary64 rounding\<close>















end
